theory Spec2Isabelle
  imports Main "HOL-Library.AList" "HOL-Library.Char_ord" "HOL-Library.List_Lexorder"
    "HOL-Library.Multiset"
begin

section \<open>Values of the host language\<close>

text \<open>
  Strings are lists of code units. The HTTP parser of Node hands header names and values
  over as latin1 strings, so every code unit fits a \<^typ>\<open>char\<close>, and the order of
  \<^typ>\<open>char\<close> (by code) is the order JavaScript compares code units in.

  A header value on \<open>request.headers\<close> is a string or (for repeated headers such as
  \<open>set-cookie\<close>) an array of strings; a header that is not there reads as
  \<open>undefined\<close>, which is \<open>None\<close> here. An object is an association list in
  insertion order whose keys are distinct.
\<close>

datatype header_value = Str string | Arr "string list"

type_synonym js_object = "(string \<times> header_value) list"

text \<open>\<open>obj[key]\<close>, own properties only.\<close>

definition get :: "js_object \<Rightarrow> string \<Rightarrow> header_value option" where
  "get obj key = map_of obj key"

text \<open>Truthiness of a value that is a string or \<open>null\<close>: the empty string is falsy.\<close>

definition truthy :: "string option \<Rightarrow> bool" where
  "truthy v = (case v of None \<Rightarrow> False | Some s \<Rightarrow> s \<noteq> [])"

text \<open>\<open>Array.prototype.join\<close> on an array of strings.\<close>

fun join :: "string \<Rightarrow> string list \<Rightarrow> string" where
  "join sep [] = []"
| "join sep [x] = x"
| "join sep (x # y # ys) = x @ sep @ join sep (y # ys)"

text \<open>
  \<open>ToString\<close> of what \<open>request.headers[name]\<close> can be: a string is itself, an array
  is its elements joined by a comma, \<open>undefined\<close> is the word.
\<close>

definition ToString :: "header_value option \<Rightarrow> string" where
  "ToString v = (case v of None \<Rightarrow> ''undefined'' | Some (Str s) \<Rightarrow> s | Some (Arr xs) \<Rightarrow> join '','' xs)"

subsection \<open>parseInt\<close>

text \<open>
  \<open>parseInt(string)\<close> with no radix: leading white space is skipped, a sign is read, a
  \<open>0x\<close> or \<open>0X\<close> prefix selects radix 16 (radix 10 otherwise), and the longest run of
  digits of that radix is the number; there is no such run exactly when the result is
  \<open>NaN\<close>, which is \<open>None\<close> here. The result is an exact integer: the rounding of a
  double beyond \<open>2^53\<close> is not modelled (a time in milliseconds is far below).
\<close>

definition is_white_space :: "char \<Rightarrow> bool" where
  "is_white_space c = (c \<in> set [CHR 0x09, CHR 0x0A, CHR 0x0B, CHR 0x0C, CHR 0x0D, CHR 0x20, CHR 0xA0])"

definition digit_value :: "char \<Rightarrow> nat option" where
  "digit_value c =
     (let n = (of_char c :: nat) in
      if 48 \<le> n \<and> n \<le> 57 then Some (n - 48)
      else if 97 \<le> n \<and> n \<le> 122 then Some (n - 87)
      else if 65 \<le> n \<and> n \<le> 90 then Some (n - 55)
      else None)"

definition is_digit :: "nat \<Rightarrow> char \<Rightarrow> bool" where
  "is_digit R c = (case digit_value c of None \<Rightarrow> False | Some d \<Rightarrow> d < R)"

definition digits_value :: "nat \<Rightarrow> string \<Rightarrow> nat" where
  "digits_value R Z = foldl (\<lambda>acc c. acc * R + (case digit_value c of None \<Rightarrow> 0 | Some d \<Rightarrow> d)) 0 Z"

definition parseInt :: "string \<Rightarrow> int option" where
  "parseInt inputString =
     (let S = dropWhile is_white_space inputString;
          sign = (case S of c # cs \<Rightarrow> if c = CHR ''-'' then (-1 :: int) else 1 | [] \<Rightarrow> 1);
          S1 = (case S of c # cs \<Rightarrow> if c = CHR ''-'' \<or> c = CHR ''+'' then cs else S | [] \<Rightarrow> S);
          stripPrefix = (case S1 of c0 # c1 # cs \<Rightarrow> c0 = CHR ''0'' \<and> (c1 = CHR ''x'' \<or> c1 = CHR ''X'') | _ \<Rightarrow> False);
          R = (if stripPrefix then 16 else 10);
          S2 = (if stripPrefix then drop 2 S1 else S1);
          Z = takeWhile (is_digit R) S2
      in if Z = [] then None else Some (sign * int (digits_value R Z)))"

text \<open>
  A number or \<open>NaN\<close>: \<open>now - parseInt(...)\<close> is \<open>NaN\<close> when the parse is, and
  every comparison with \<open>NaN\<close> is false.
\<close>

definition minus_NaN :: "int \<Rightarrow> int option \<Rightarrow> int option" where
  "minus_NaN a b = (case b of None \<Rightarrow> None | Some t \<Rightarrow> Some (a - t))"

definition greater_NaN :: "int option \<Rightarrow> int \<Rightarrow> bool" where
  "greater_NaN a b = (case a of None \<Rightarrow> False | Some d \<Rightarrow> d > b)"

subsection \<open>JSON.stringify and json-stable-stringify\<close>

text \<open>
  \<open>JSON.stringify\<close> of a string: quoted, with the quote, the backslash and the
  control characters below \<open>0x20\<close> escaped.
\<close>

definition hex_digit :: "nat \<Rightarrow> char" where
  "hex_digit n = ''0123456789abcdef'' ! (n mod 16)"

definition escape_char :: "char \<Rightarrow> string" where
  "escape_char c =
     (if c = CHR 0x22 then [CHR 0x5C, CHR 0x22]
      else if c = CHR 0x5C then [CHR 0x5C, CHR 0x5C]
      else if c = CHR 0x08 then [CHR 0x5C, CHR ''b'']
      else if c = CHR 0x0C then [CHR 0x5C, CHR ''f'']
      else if c = CHR 0x0A then [CHR 0x5C, CHR ''n'']
      else if c = CHR 0x0D then [CHR 0x5C, CHR ''r'']
      else if c = CHR 0x09 then [CHR 0x5C, CHR ''t'']
      else if (of_char c :: nat) < 32
        then [CHR 0x5C, CHR ''u'', CHR ''0'', CHR ''0'',
              hex_digit ((of_char c :: nat) div 16), hex_digit (of_char c :: nat)]
      else [c])"

definition JSON_quote :: "string \<Rightarrow> string" where
  "JSON_quote s = [CHR 0x22] @ concat (map escape_char s) @ [CHR 0x22]"

definition JSON_stringify_value :: "header_value \<Rightarrow> string" where
  "JSON_stringify_value v =
     (case v of Str s \<Rightarrow> JSON_quote s
      | Arr xs \<Rightarrow> ''['' @ join '','' (map JSON_quote xs) @ '']'')"

text \<open>
  \<open>JSON.stringify( { error: ..., message: ... } )\<close>, the body of every failure
  response.
\<close>

definition JSON_stringify_error :: "string \<Rightarrow> string \<Rightarrow> string" where
  "JSON_stringify_error error message =
     ''{'' @ JSON_quote ''error'' @ '':'' @ JSON_quote error @ '','' @
            JSON_quote ''message'' @ '':'' @ JSON_quote message @ ''}''"

text \<open>
  \<open>json_stable_stringify\<close> (the package json-stable-stringify, with no options) on an
  object of header values: the keys are sorted with the default \<open>Array.prototype.sort\<close>
  (code unit order) and each is written as \<open>"key":value\<close>, joined by commas.
\<close>

definition json_stable_stringify :: "js_object \<Rightarrow> string" where
  "json_stable_stringify node =
     ''{'' @ join '','' (map (\<lambda>(key, v). JSON_quote key @ '':'' @ JSON_stringify_value v)
                            (sort_key fst node)) @ ''}''"

section \<open>Configuration, request, response and the world outside\<close>

record header_names =
  time :: string
  hash :: string
  signature :: string

record options =
  headers :: header_names
  headers_to_verify :: "string list"
  public_key_endpoint :: "string option"
  public_key :: "string option"
  grace_period :: int
  skip_verification :: bool

text \<open>The defaults that \<open>Object.assign\<close> starts from.\<close>

definition default_options :: options where
  "default_options =
     \<lparr> headers = \<lparr> time = ''x-micro-api-gateway-signature-time'',
                   hash = ''x-micro-api-gateway-request-hash'',
                   signature = ''x-micro-api-gateway-signature'' \<rparr>,
       headers_to_verify = [],
       public_key_endpoint = None,
       public_key = None,
       grace_period = 1000 * 60 * 5,
       skip_verification = False \<rparr>"

record request =
  request_method :: string
  url :: string
  request_headers :: js_object

text \<open>
  The response sink: the status last assigned, the headers given to \<open>setHeader\<close> (under
  the name as the code writes it), and the body given to \<open>end\<close>, if it was called.
  The verifier is handed a response that nothing was written to, so \<open>setHeader\<close> and
  \<open>end\<close> do not throw.
\<close>

record response =
  statusCode :: nat
  response_headers :: "(string \<times> string) list"
  body :: "string option"

definition setHeader :: "string \<Rightarrow> string \<Rightarrow> response \<Rightarrow> response" where
  "setHeader name v response = response\<lparr> response_headers := AList.update name v (response_headers response) \<rparr>"

text \<open>The two constants of the package httpstatuses that the code uses.\<close>

definition internal_server_error :: nat where
  "internal_server_error = 500"

definition bad_request :: nat where
  "bad_request = 400"

text \<open>
  What \<open>fetch( options.public_key_endpoint )\<close> does when it is called: an ok response
  with its text, a response that is not ok with its status, or an exception (of
  \<open>fetch\<close> itself, or of \<open>text()\<close>).
\<close>

datatype fetch_outcome = Fetch_ok string | Fetch_not_ok nat | Fetch_throws string

text \<open>
  Everything a call reads from outside: the clock at the two places \<open>+new Date()\<close> is
  evaluated, the answer of the key endpoint, the two environment variables, and the
  crypto library: the base64 SHA-256 digest of a string, and RSA-SHA256 verification of
  (public key, data, base64 signature), which returns a boolean or throws (as it does on
  a key it cannot parse).
\<close>

record env =
  now_get_public_key :: int
  now_middleware :: int
  fetch_response :: fetch_outcome
  SKIP_GATEWAY_VERIFICATION :: "string option"
  API_GATEWAY_MIDDLEWARE_DEBUG :: "string option"
  createHash_SHA256_base64 :: "string \<Rightarrow> string"
  createVerify_RSA_SHA256 :: "string \<Rightarrow> string \<Rightarrow> string \<Rightarrow> string + bool"

text \<open>The calls a run makes on its collaborators, in order.\<close>

datatype event =
    Call_get_public_key
  | Call_fetch "string option"
  | Console_warn_status nat
  | Console_warn string
  | Console_log string
  | Call_json_stable_stringify js_object
  | Call_createHash string
  | Call_createVerify string string string

text \<open>The two variables the closure keeps between calls.\<close>

record state =
  fetched_public_key :: "string option"
  last_public_key_update :: int

definition initial_state :: state where
  "initial_state = \<lparr> fetched_public_key = None, last_public_key_update = 0 \<rparr>"

text \<open>
  The outcome of a call of the verifier: the boolean it resolves to, or the exception it
  rejects with (\<open>Inl\<close>); the response and the closure's variables as the call leaves
  them; the calls it made.
\<close>

record outcome =
  verdict :: "string + bool"
  response_after :: response
  state_after :: state
  trace :: "event list"

text \<open>The module function: it throws when no key source is configured.\<close>

definition module_exports :: "options \<Rightarrow> string + state" where
  "module_exports options =
     (if \<not> (truthy (public_key_endpoint options) \<or> truthy (public_key options))
      then Inl ''You must specify a public key or public key endpoint!''
      else Inr initial_state)"

section \<open>The key provider\<close>

text \<open>
  \<open>get_public_key\<close> of index.js; the second file of part\_000 and part\_001 have the
  same text. The result is the key returned, the variables afterwards, and the calls made.
\<close>

definition get_public_key :: "options \<Rightarrow> env \<Rightarrow> state \<Rightarrow> string option \<times> state \<times> event list" where
  "get_public_key options e s =
     (if truthy (public_key options) then (public_key options, s, [])
      else
        let now = now_get_public_key e;
            time_since_last_public_key_update = now - last_public_key_update s
        in if \<not> truthy (fetched_public_key s) \<or> time_since_last_public_key_update > grace_period options
           then
             let s1 = s\<lparr> fetched_public_key := None \<rparr>;
                 (s2, evs) =
                   (case fetch_response e of
                      Fetch_ok text \<Rightarrow>
                        (s1\<lparr> fetched_public_key := Some text \<rparr>, [Call_fetch (public_key_endpoint options)])
                    | Fetch_not_ok status \<Rightarrow>
                        (s1\<lparr> fetched_public_key := None \<rparr>,
                         [Call_fetch (public_key_endpoint options), Console_warn_status status])
                    | Fetch_throws ex \<Rightarrow>
                        (s1\<lparr> fetched_public_key := None \<rparr>,
                         [Call_fetch (public_key_endpoint options), Console_warn ex]));
                 s3 = (if truthy (fetched_public_key s2) then s2\<lparr> last_public_key_update := now \<rparr> else s2)
             in (fetched_public_key s3, s3, evs)
           else (fetched_public_key s, s, []))"

text \<open>
  \<open>get_public_key\<close> of the first file of part\_000: the fetch is not inside a
  \<open>try\<close>, so its exception is the function's (\<open>Inl\<close>), and the cached key is
  assigned only after the awaits.
\<close>

definition get_public_key_part_000a ::
  "options \<Rightarrow> env \<Rightarrow> state \<Rightarrow> (string + string option) \<times> state \<times> event list" where
  "get_public_key_part_000a options e s =
     (if truthy (public_key options) then (Inr (public_key options), s, [])
      else
        let now = now_get_public_key e;
            time_since_last_public_key_update = now - last_public_key_update s
        in if \<not> truthy (fetched_public_key s) \<or> time_since_last_public_key_update > grace_period options
           then
             (case fetch_response e of
                Fetch_throws ex \<Rightarrow> (Inl ex, s, [Call_fetch (public_key_endpoint options)])
              | Fetch_not_ok status \<Rightarrow>
                  (Inr None, s\<lparr> fetched_public_key := None \<rparr>, [Call_fetch (public_key_endpoint options)])
              | Fetch_ok text \<Rightarrow>
                  (Inr (Some text), s\<lparr> fetched_public_key := Some text, last_public_key_update := now \<rparr>,
                   [Call_fetch (public_key_endpoint options)]))
           else (Inr (fetched_public_key s), s, []))"

text \<open>
  Successive calls of \<open>get_public_key\<close> of index.js on one closure, one environment
  per call: what each call returns with the calls it makes, and the variables at the end.
\<close>

fun get_public_key_calls :: "options \<Rightarrow> env list \<Rightarrow> state \<Rightarrow> (string option \<times> event list) list \<times> state" where
  "get_public_key_calls options [] s = ([], s)"
| "get_public_key_calls options (e # es) s =
     (case get_public_key options e s of (key, s', evs) \<Rightarrow>
        (case get_public_key_calls options es s' of (rs, s'') \<Rightarrow> ((key, evs) # rs, s'')))"

section \<open>The canonical string\<close>

text \<open>\<open>typeof v === 'string'\<close>, with the string when it holds.\<close>

definition typeof_string :: "header_value option \<Rightarrow> string option" where
  "typeof_string v = (case v of Some (Str s) \<Rightarrow> Some s | _ \<Rightarrow> None)"

text \<open>
  The whitelist of index.js and part\_001: \<open>options.headers_to_verify.reduce\<close> from
  the empty object, copying each listed header that the request has. An assignment to a
  key that is there keeps its place, a new key goes last.
\<close>

definition headers_to_verify_reduce :: "options \<Rightarrow> request \<Rightarrow> js_object" where
  "headers_to_verify_reduce options request =
     fold (\<lambda>header headers_to_verify'.
             case get (request_headers request) header of
               None \<Rightarrow> headers_to_verify'
             | Some v \<Rightarrow> AList.update header v headers_to_verify')
          (headers_to_verify options) []"

text \<open>
  The blacklist of both files of part\_000: a copy of all the request's headers, with the
  hash header, the signature header, \<open>connection\<close> and \<open>transfer-encoding\<close> deleted.
\<close>

definition headers_to_verify_extend :: "options \<Rightarrow> request \<Rightarrow> js_object" where
  "headers_to_verify_extend options request =
     AList.delete ''transfer-encoding''
       (AList.delete ''connection''
         (AList.delete (signature (headers options))
           (AList.delete (hash (headers options)) (request_headers request))))"

definition request_as_string :: "request \<Rightarrow> js_object \<Rightarrow> string" where
  "request_as_string request headers_to_verify' =
     join '':::'' [request_method request, url request, json_stable_stringify headers_to_verify']"

section \<open>The verifier\<close>

text \<open>
  The three statements of every failure branch: the status, the content type header
  (under the name the file writes), the JSON body.
\<close>

definition respond :: "nat \<Rightarrow> string \<Rightarrow> string \<Rightarrow> string \<Rightarrow> response \<Rightarrow> response" where
  "respond status content_type error message response =
     (setHeader content_type ''application/json'' (response\<lparr> statusCode := status \<rparr>))
       \<lparr> body := Some (JSON_stringify_error error message) \<rparr>"

definition return_false :: "response \<Rightarrow> state \<Rightarrow> event list \<Rightarrow> outcome" where
  "return_false response s tr =
     \<lparr> verdict = Inr False, response_after = response, state_after = s, trace = tr \<rparr>"

definition return_true :: "response \<Rightarrow> state \<Rightarrow> event list \<Rightarrow> outcome" where
  "return_true response s tr =
     \<lparr> verdict = Inr True, response_after = response, state_after = s, trace = tr \<rparr>"

definition throw :: "string \<Rightarrow> response \<Rightarrow> state \<Rightarrow> event list \<Rightarrow> outcome" where
  "throw ex response s tr =
     \<lparr> verdict = Inl ex, response_after = response, state_after = s, trace = tr \<rparr>"

definition debug_log :: "env \<Rightarrow> string \<Rightarrow> string \<Rightarrow> event list" where
  "debug_log e request_as_string' request_hash =
     (if truthy (API_GATEWAY_MIDDLEWARE_DEBUG e)
      then [Console_log (''VERIFY REQ: '' @ request_as_string'),
            Console_log (''VERIFY HASH: '' @ request_hash)]
      else [])"

text \<open>
  The key as a string, where the code has checked that it is truthy (so that it is not
  \<open>null\<close>).
\<close>

definition key_string :: "string option \<Rightarrow> string" where
  "key_string k = (case k of None \<Rightarrow> [] | Some key \<Rightarrow> key)"

text \<open>The function that index.js returns.\<close>

definition middleware :: "options \<Rightarrow> env \<Rightarrow> state \<Rightarrow> request \<Rightarrow> response \<Rightarrow> outcome" where
  "middleware options e s request response =
     (if truthy (SKIP_GATEWAY_VERIFICATION e) then return_true response s []
      else
        case get_public_key options e s of (public_key', s', evs) \<Rightarrow>
        (let tr0 = Call_get_public_key # evs in
        if \<not> truthy public_key' then
          return_false (respond internal_server_error ''content-type'' ''missing public key''
            ''Could not obtain public key from provided endpoint.'' response) s' tr0
        else
        (case typeof_string (get (request_headers request) (hash (headers options))) of
          None \<Rightarrow>
            return_false (respond bad_request ''content-type'' ''missing or malformed request hash''
              ''The request does not have a proper request hash header.'' response) s' tr0
        | Some incoming_request_hash \<Rightarrow>
        (case typeof_string (get (request_headers request) (signature (headers options))) of
          None \<Rightarrow>
            return_false (respond bad_request ''content-type'' ''missing or malformed request hash signature''
              ''The request does not have a proper request hash signature header.'' response) s' tr0
        | Some incoming_request_hash_signature \<Rightarrow>
        (let headers_to_verify' = headers_to_verify_reduce options request;
             request_as_string' = request_as_string request headers_to_verify';
             request_hash = createHash_SHA256_base64 e request_as_string';
             tr1 = tr0 @ [Call_json_stable_stringify headers_to_verify', Call_createHash request_as_string']
                      @ debug_log e request_as_string' request_hash;
             now = now_middleware e;
             time_delta = minus_NaN now (parseInt (ToString (get (request_headers request) (time (headers options)))))
         in
         if greater_NaN time_delta (grace_period options) then
           return_false (respond bad_request ''content-type'' ''expired request''
             ''The request from the API gateway has expired.'' response) s' tr1
         else if request_hash \<noteq> incoming_request_hash then
           return_false (respond bad_request ''content-type'' ''invalid request hash''
             ''The request from the API gateway has an invalid request hash.'' response) s' tr1
         else
         (let tr2 = tr1 @ [Call_createVerify (key_string public_key') request_hash incoming_request_hash_signature] in
          (case createVerify_RSA_SHA256 e (key_string public_key') request_hash incoming_request_hash_signature of
             Inl ex \<Rightarrow> throw ex response s' tr2
           | Inr request_hash_verified \<Rightarrow>
               if \<not> request_hash_verified then
                 return_false (respond bad_request ''content-type'' ''invalid request hash signature''
                   ''The request hash from the API gateway could not be verified.'' response) s' tr2
               else return_true response s' tr2)))))))"

text \<open>
  The function that part\_001 returns: the bypass is the option \<open>skip_verification\<close>
  and marks the response; the rest is as in index.js.
\<close>

definition middleware_part_001 :: "options \<Rightarrow> env \<Rightarrow> state \<Rightarrow> request \<Rightarrow> response \<Rightarrow> outcome" where
  "middleware_part_001 options e s request response =
     (if skip_verification options then
        return_true (setHeader ''x-micro-api-gateway-verification-skipped'' ''true'' response) s []
      else
        case get_public_key options e s of (public_key', s', evs) \<Rightarrow>
        (let tr0 = Call_get_public_key # evs in
        if \<not> truthy public_key' then
          return_false (respond internal_server_error ''content-type'' ''missing public key''
            ''Could not obtain public key from provided endpoint.'' response) s' tr0
        else
        (case typeof_string (get (request_headers request) (hash (headers options))) of
          None \<Rightarrow>
            return_false (respond bad_request ''content-type'' ''missing or malformed request hash''
              ''The request does not have a proper request hash header.'' response) s' tr0
        | Some incoming_request_hash \<Rightarrow>
        (case typeof_string (get (request_headers request) (signature (headers options))) of
          None \<Rightarrow>
            return_false (respond bad_request ''content-type'' ''missing or malformed request hash signature''
              ''The request does not have a proper request hash signature header.'' response) s' tr0
        | Some incoming_request_hash_signature \<Rightarrow>
        (let headers_to_verify' = headers_to_verify_reduce options request;
             request_as_string' = request_as_string request headers_to_verify';
             request_hash = createHash_SHA256_base64 e request_as_string';
             tr1 = tr0 @ [Call_json_stable_stringify headers_to_verify', Call_createHash request_as_string']
                      @ debug_log e request_as_string' request_hash;
             now = now_middleware e;
             time_delta = minus_NaN now (parseInt (ToString (get (request_headers request) (time (headers options)))))
         in
         if greater_NaN time_delta (grace_period options) then
           return_false (respond bad_request ''content-type'' ''expired request''
             ''The request from the API gateway has expired.'' response) s' tr1
         else if request_hash \<noteq> incoming_request_hash then
           return_false (respond bad_request ''content-type'' ''invalid request hash''
             ''The request from the API gateway has an invalid request hash.'' response) s' tr1
         else
         (let tr2 = tr1 @ [Call_createVerify (key_string public_key') request_hash incoming_request_hash_signature] in
          (case createVerify_RSA_SHA256 e (key_string public_key') request_hash incoming_request_hash_signature of
             Inl ex \<Rightarrow> throw ex response s' tr2
           | Inr request_hash_verified \<Rightarrow>
               if \<not> request_hash_verified then
                 return_false (respond bad_request ''content-type'' ''invalid request hash signature''
                   ''The request hash from the API gateway could not be verified.'' response) s' tr2
               else return_true response s' tr2)))))))"

text \<open>
  The function that the second file of part\_000 returns: no bypass, the header checks of
  index.js, the blacklist, no debug log.
\<close>

definition middleware_part_000b :: "options \<Rightarrow> env \<Rightarrow> state \<Rightarrow> request \<Rightarrow> response \<Rightarrow> outcome" where
  "middleware_part_000b options e s request response =
     (case get_public_key options e s of (public_key', s', evs) \<Rightarrow>
        (let tr0 = Call_get_public_key # evs in
        if \<not> truthy public_key' then
          return_false (respond internal_server_error ''content-type'' ''missing public key''
            ''Could not obtain public key from provided endpoint.'' response) s' tr0
        else
        (case typeof_string (get (request_headers request) (hash (headers options))) of
          None \<Rightarrow>
            return_false (respond bad_request ''content-type'' ''missing or malformed request hash''
              ''The request does not have a proper request hash header.'' response) s' tr0
        | Some incoming_request_hash \<Rightarrow>
        (case typeof_string (get (request_headers request) (signature (headers options))) of
          None \<Rightarrow>
            return_false (respond bad_request ''content-type'' ''missing or malformed request hash signature''
              ''The request does not have a proper request hash signature header.'' response) s' tr0
        | Some incoming_request_hash_signature \<Rightarrow>
        (let headers_to_verify' = headers_to_verify_extend options request;
             request_as_string' = request_as_string request headers_to_verify';
             request_hash = createHash_SHA256_base64 e request_as_string';
             tr1 = tr0 @ [Call_json_stable_stringify headers_to_verify', Call_createHash request_as_string'];
             now = now_middleware e;
             time_delta = minus_NaN now (parseInt (ToString (get (request_headers request) (time (headers options)))))
         in
         if greater_NaN time_delta (grace_period options) then
           return_false (respond bad_request ''content-type'' ''expired request''
             ''The request from the API gateway has expired.'' response) s' tr1
         else if request_hash \<noteq> incoming_request_hash then
           return_false (respond bad_request ''content-type'' ''invalid request hash''
             ''The request from the API gateway has an invalid request hash.'' response) s' tr1
         else
         (let tr2 = tr1 @ [Call_createVerify (key_string public_key') request_hash incoming_request_hash_signature] in
          (case createVerify_RSA_SHA256 e (key_string public_key') request_hash incoming_request_hash_signature of
             Inl ex \<Rightarrow> throw ex response s' tr2
           | Inr request_hash_verified \<Rightarrow>
               if \<not> request_hash_verified then
                 return_false (respond bad_request ''content-type'' ''invalid request hash signature''
                   ''The request hash from the API gateway could not be verified.'' response) s' tr2
               else return_true response s' tr2)))))))"

text \<open>
  The function that the first file of part\_000 returns: no bypass and no header checks.
  The computed hash is compared with whatever \<open>request.headers\<close> has under the hash
  name (\<open>!==\<close> holds against \<open>undefined\<close> and against an array), and the signature
  header goes to \<open>verify\<close> as it is: Node throws a \<open>TypeError\<close> on a signature that
  is neither a string nor a buffer. An exception of \<open>get_public_key\<close> is the call's.
\<close>

definition verify_part_000a :: "env \<Rightarrow> string \<Rightarrow> string \<Rightarrow> header_value option \<Rightarrow> string + bool" where
  "verify_part_000a e key request_hash sig =
     (case typeof_string sig of
        None \<Rightarrow> Inl ''TypeError [ERR_INVALID_ARG_TYPE]''
      | Some sig' \<Rightarrow> createVerify_RSA_SHA256 e key request_hash sig')"

definition middleware_part_000a :: "options \<Rightarrow> env \<Rightarrow> state \<Rightarrow> request \<Rightarrow> response \<Rightarrow> outcome" where
  "middleware_part_000a options e s request response =
     (case get_public_key_part_000a options e s of (r, s', evs) \<Rightarrow>
        (let tr0 = Call_get_public_key # evs in
         (case r of
            Inl ex \<Rightarrow> throw ex response s' tr0
          | Inr public_key' \<Rightarrow>
         if \<not> truthy public_key' then
           return_false (respond internal_server_error ''Content-Type'' ''missing public key''
             ''Could not obtain public key from provided endpoint.'' response) s' tr0
         else
         (let headers_to_verify' = headers_to_verify_extend options request;
              request_as_string' = request_as_string request headers_to_verify';
              request_hash = createHash_SHA256_base64 e request_as_string';
              tr1 = tr0 @ [Call_json_stable_stringify headers_to_verify', Call_createHash request_as_string'];
              now = now_middleware e;
              time_delta = minus_NaN now (parseInt (ToString (get (request_headers request) (time (headers options)))))
          in
          if greater_NaN time_delta (grace_period options) then
            return_false (respond bad_request ''Content-Type'' ''expired request''
              ''The request from the API gateway has expired.'' response) s' tr1
          else if Some (Str request_hash) \<noteq> get (request_headers request) (hash (headers options)) then
            return_false (respond bad_request ''Content-Type'' ''invalid request hash''
              ''The request from the API gateway has an invalid request hash.'' response) s' tr1
          else
          (let tr2 = tr1 @ [Call_createVerify (key_string public_key') request_hash
                              (ToString (get (request_headers request) (signature (headers options))))] in
           (case verify_part_000a e (key_string public_key') request_hash
                   (get (request_headers request) (signature (headers options))) of
              Inl ex \<Rightarrow> throw ex response s' tr2
            | Inr request_hash_verified \<Rightarrow>
                if \<not> request_hash_verified then
                  return_false (respond bad_request ''Content-Type'' ''invalid request hash signature''
                    ''The request hash from the API gateway could not be verified.'' response) s' tr2
                else return_true response s' tr2))))))"

text \<open>
  The six objects that the failure branches serialize: the error kind and the message.
\<close>

definition failures :: "(string \<times> string) list" where
  "failures =
     [(''missing public key'', ''Could not obtain public key from provided endpoint.''),
      (''missing or malformed request hash'', ''The request does not have a proper request hash header.''),
      (''missing or malformed request hash signature'',
       ''The request does not have a proper request hash signature header.''),
      (''expired request'', ''The request from the API gateway has expired.''),
      (''invalid request hash'', ''The request from the API gateway has an invalid request hash.''),
      (''invalid request hash signature'', ''The request hash from the API gateway could not be verified.'')]"

section \<open>Example inputs\<close>

text \<open>
  A stand-in for the crypto library, to run the verifier on concrete requests: the
  digest of a string is the string behind a tag, a key that does not start like a PEM
  block makes \<open>verify\<close> throw (as OpenSSL does on a key it cannot read), and the
  valid signature of some data is the data behind a tag. The theorems below hold for
  every library; only their instances at concrete inputs use this one.
\<close>

definition example_createHash :: "string \<Rightarrow> string" where
  "example_createHash data = ''sha256:'' @ data"

definition example_createVerify :: "string \<Rightarrow> string \<Rightarrow> string \<Rightarrow> string + bool" where
  "example_createVerify key data sig =
     (if take 10 key \<noteq> ''-----BEGIN'' then Inl ''error:0909006C:PEM routines:get_name:no start line''
      else Inr (sig = ''signed:'' @ data))"

definition example_env :: env where
  "example_env =
     \<lparr> now_get_public_key = 1000000, now_middleware = 1000001,
       fetch_response = Fetch_ok ''-----BEGIN PUBLIC KEY-----'',
       SKIP_GATEWAY_VERIFICATION = None, API_GATEWAY_MIDDLEWARE_DEBUG = None,
       createHash_SHA256_base64 = example_createHash,
       createVerify_RSA_SHA256 = example_createVerify \<rparr>"

text \<open>The default options with a static key, and with a key endpoint.\<close>

definition example_options :: options where
  "example_options = default_options\<lparr> public_key := Some ''-----BEGIN PUBLIC KEY-----'' \<rparr>"

definition example_endpoint_options :: options where
  "example_endpoint_options =
     default_options\<lparr> public_key_endpoint := Some ''https://your.gateway.com/public.pem'' \<rparr>"

text \<open>
  \<open>GET /orders\<close>, signed 1001 ms before the clock of \<open>example_env\<close>, with the digest
  and the signature that the stand-in library accepts.
\<close>

definition example_request :: request where
  "example_request =
     \<lparr> request_method = ''GET'', url = ''/orders'',
       request_headers =
         [(''x-micro-api-gateway-signature-time'', Str ''999000''),
          (''x-micro-api-gateway-request-hash'', Str ''sha256:GET:::/orders:::{}''),
          (''x-micro-api-gateway-signature'', Str ''signed:sha256:GET:::/orders:::{}'')] \<rparr>"

definition example_response :: response where
  "example_response = \<lparr> statusCode = 200, response_headers = [], body = None \<rparr>"

section \<open>Facts about the model\<close>

lemmas example_defs = example_createHash_def example_createVerify_def example_env_def
  example_options_def example_endpoint_options_def example_request_def example_response_def
  default_options_def initial_state_def

lemmas js_defs = truthy_def get_def typeof_string_def ToString_def minus_NaN_def greater_NaN_def
  key_string_def

lemmas parseInt_defs = parseInt_def is_white_space_def is_digit_def digit_value_def digits_value_def

lemmas outcome_defs = return_true_def return_false_def throw_def respond_def setHeader_def debug_log_def
  internal_server_error_def bad_request_def

lemmas canonical_defs = headers_to_verify_reduce_def headers_to_verify_extend_def request_as_string_def
  json_stable_stringify_def JSON_stringify_value_def JSON_quote_def escape_char_def

subsection \<open>Sorting an object's entries by key\<close>

lemma sort_key_fst_unique:
  assumes "distinct (map fst xs)" and "distinct (map fst ys)" and "set xs = set ys"
  shows "sort_key fst xs = sort_key fst ys"
proof (rule sort_key_inj_key_eq)
  from assms have "distinct xs" and "distinct ys"
    by (simp_all add: distinct_map)
  with assms(3) have "mset xs = mset ys"
    by (simp add: set_eq_iff_mset_eq_distinct)
  then show "mset xs = mset (sort_key fst ys)"
    by simp
  from assms(1) show "inj_on fst (set xs)"
    by (simp add: distinct_map)
  show "sorted (map fst (sort_key fst ys))"
    by simp
qed

lemma set_delete: "set (AList.delete k al) = {p \<in> set al. fst p \<noteq> k}"
  by (auto simp add: AList.delete_eq)

lemma headers_to_verify_extend_distinct:
  "distinct (map fst (request_headers r)) \<Longrightarrow> distinct (map fst (headers_to_verify_extend options r))"
  by (simp add: headers_to_verify_extend_def distinct_delete)

lemma headers_to_verify_extend_set:
  "set (request_headers r1) = set (request_headers r2) \<Longrightarrow>
   set (headers_to_verify_extend options r1) = set (headers_to_verify_extend options r2)"
  by (simp add: headers_to_verify_extend_def set_delete)

lemma headers_to_verify_reduce_cong:
  "map_of (request_headers r1) = map_of (request_headers r2) \<Longrightarrow>
   headers_to_verify_reduce options r1 = headers_to_verify_reduce options r2"
  by (simp add: headers_to_verify_reduce_def get_def)

subsection \<open>The library functions on examples\<close>

lemma parseInt_examples:
  "parseInt ''1500000000000'' = Some 1500000000000"
  "parseInt ''  42abc'' = Some 42"
  "parseInt ''-7'' = Some (-7)"
  "parseInt ''0x1f'' = Some 31"
  "parseInt ''12,34'' = Some 12"
  "parseInt ''undefined'' = None"
  "parseInt '''' = None"
  "parseInt ''abc'' = None"
  by (simp_all add: parseInt_defs)

lemma json_stable_stringify_example:
  "json_stable_stringify [(''x-b'', Str ''2''), (''accept'', Str ''*/*''), (''x-a'', Arr [''1'', ''3''])] =
     [CHR ''{'', CHR 0x22] @ ''accept'' @ [CHR 0x22, CHR '':'', CHR 0x22] @ ''*/*'' @ [CHR 0x22, CHR '','', CHR 0x22] @
     ''x-a'' @ [CHR 0x22, CHR '':'', CHR ''['', CHR 0x22, CHR ''1'', CHR 0x22, CHR '','', CHR 0x22, CHR ''3'',
        CHR 0x22, CHR '']'', CHR '','', CHR 0x22] @
     ''x-b'' @ [CHR 0x22, CHR '':'', CHR 0x22, CHR ''2'', CHR 0x22, CHR ''}'']"
  by (simp add: canonical_defs)

lemma JSON_stringify_error_example:
  "JSON_stringify_error ''expired request'' ''The request from the API gateway has expired.'' =
     [CHR ''{'', CHR 0x22] @ ''error'' @ [CHR 0x22, CHR '':'', CHR 0x22] @ ''expired request'' @
     [CHR 0x22, CHR '','', CHR 0x22] @ ''message'' @ [CHR 0x22, CHR '':'', CHR 0x22] @
     ''The request from the API gateway has expired.'' @ [CHR 0x22, CHR ''}'']"
  by (simp add: JSON_stringify_error_def JSON_quote_def escape_char_def)

subsection \<open>Failure responses\<close>

lemma respond_eq_iff:
  "respond st ct k m r = respond st' ct k' m' r \<longleftrightarrow>
     st = st' \<and> JSON_stringify_error k m = JSON_stringify_error k' m'"
proof
  assume eq: "respond st ct k m r = respond st' ct k' m' r"
  from arg_cong [OF eq, of statusCode] arg_cong [OF eq, of body]
  show "st = st' \<and> JSON_stringify_error k m = JSON_stringify_error k' m'"
    by (simp add: respond_def setHeader_def)
qed (simp add: respond_def)

lemma error_bodies_distinct:
  "JSON_stringify_error ''missing public key'' m1 \<noteq> JSON_stringify_error ''expired request'' m2"
  "JSON_stringify_error ''missing or malformed request hash'' m1 \<noteq> JSON_stringify_error ''expired request'' m2"
  "JSON_stringify_error ''missing or malformed request hash signature'' m1 \<noteq>
     JSON_stringify_error ''expired request'' m2"
  "JSON_stringify_error ''invalid request hash'' m1 \<noteq> JSON_stringify_error ''expired request'' m2"
  "JSON_stringify_error ''invalid request hash signature'' m1 \<noteq> JSON_stringify_error ''expired request'' m2"
  "JSON_stringify_error ''invalid request hash'' m1 \<noteq> JSON_stringify_error ''missing or malformed request hash'' m2"
  "JSON_stringify_error ''expired request'' m1 \<noteq> JSON_stringify_error ''missing or malformed request hash'' m2"
  by (simp_all add: JSON_stringify_error_def JSON_quote_def escape_char_def)

lemma missing_public_key_body_distinct:
  "JSON_stringify_error ''missing or malformed request hash'' m1 \<noteq> JSON_stringify_error ''missing public key'' m2"
  "JSON_stringify_error ''missing or malformed request hash signature'' m1 \<noteq>
     JSON_stringify_error ''missing public key'' m2"
  "JSON_stringify_error ''expired request'' m1 \<noteq> JSON_stringify_error ''missing public key'' m2"
  "JSON_stringify_error ''invalid request hash'' m1 \<noteq> JSON_stringify_error ''missing public key'' m2"
  "JSON_stringify_error ''invalid request hash signature'' m1 \<noteq> JSON_stringify_error ''missing public key'' m2"
  by (simp_all add: JSON_stringify_error_def JSON_quote_def escape_char_def)

lemma failure_status_iff_body:
  assumes "(error, message) \<in> set failures"
  shows "statusCode (respond (if error = ''missing public key'' then 500 else 400) ct error message response) =
      (if body (respond (if error = ''missing public key'' then 500 else 400) ct error message response) =
            Some (JSON_stringify_error ''missing public key''
                    ''Could not obtain public key from provided endpoint.'')
       then 500 else 400)"
  using assms
  by (auto simp add: failures_def respond_def setHeader_def missing_public_key_body_distinct)

subsection \<open>The outcomes of a call\<close>

text \<open>
  Every call ends in one of three ways: it returns true, with the response that was passed
  in (or, in the bypass of part\_001, that response with the marker header); it throws;
  or it returns false after writing one of the six failure objects. In index.js, the
  second file of part\_000 and part\_001 the only exception is one of \<open>verify\<close>.
\<close>

lemma middleware_outcomes:
  assumes true: "\<And>response' s' tr. response' = response \<Longrightarrow> P (return_true response' s' tr)"
    and throw: "\<And>ex key data sig s' tr.
      createVerify_RSA_SHA256 e key data sig = Inl ex \<Longrightarrow> P (throw ex response s' tr)"
    and false: "\<And>error message status s' tr.
      (error, message) \<in> set failures \<Longrightarrow>
      status = (if error = ''missing public key'' then internal_server_error else bad_request) \<Longrightarrow>
      P (return_false (respond status ''content-type'' error message response) s' tr)"
  shows "P (middleware options e s request response)"
  unfolding middleware_def Let_def
  by (simp split: prod.split option.split sum.split add: true throw false failures_def)

lemma middleware_part_001_outcomes:
  assumes true: "\<And>response' s' tr. response' = response \<or> response' = setHeader ''x-micro-api-gateway-verification-skipped'' ''true'' response \<Longrightarrow> P (return_true response' s' tr)"
    and throw: "\<And>ex key data sig s' tr.
      createVerify_RSA_SHA256 e key data sig = Inl ex \<Longrightarrow> P (throw ex response s' tr)"
    and false: "\<And>error message status s' tr.
      (error, message) \<in> set failures \<Longrightarrow>
      status = (if error = ''missing public key'' then internal_server_error else bad_request) \<Longrightarrow>
      P (return_false (respond status ''content-type'' error message response) s' tr)"
  shows "P (middleware_part_001 options e s request response)"
  unfolding middleware_part_001_def Let_def
  by (simp split: prod.split option.split sum.split add: true throw false failures_def)

lemma middleware_part_000b_outcomes:
  assumes true: "\<And>response' s' tr. response' = response \<Longrightarrow> P (return_true response' s' tr)"
    and throw: "\<And>ex key data sig s' tr.
      createVerify_RSA_SHA256 e key data sig = Inl ex \<Longrightarrow> P (throw ex response s' tr)"
    and false: "\<And>error message status s' tr.
      (error, message) \<in> set failures \<Longrightarrow>
      status = (if error = ''missing public key'' then internal_server_error else bad_request) \<Longrightarrow>
      P (return_false (respond status ''content-type'' error message response) s' tr)"
  shows "P (middleware_part_000b options e s request response)"
  unfolding middleware_part_000b_def Let_def
  by (simp split: prod.split option.split sum.split add: true throw false failures_def)

lemma middleware_part_000a_outcomes:
  assumes true: "\<And>s' tr. P (return_true response s' tr)"
    and throw: "\<And>ex s' tr. P (throw ex response s' tr)"
    and false: "\<And>error message status s' tr.
      (error, message) \<in> set failures \<Longrightarrow>
      status = (if error = ''missing public key'' then internal_server_error else bad_request) \<Longrightarrow>
      P (return_false (respond status ''Content-Type'' error message response) s' tr)"
  shows "P (middleware_part_000a options e s request response)"
  unfolding middleware_part_000a_def Let_def
  by (simp split: prod.split option.split sum.split add: true throw false failures_def)

subsection \<open>The key provider of index.js\<close>

text \<open>
  The facts behind the cache of \<open>get_public_key\<close> (index.js, the second file of
  part\_000, part\_001), for a verifier with no static key. A fetch that brings a key
  (a text that is not empty) stores it with the time of the call. While a key is stored
  and the clock is at most the grace period past that time, a call returns the stored key,
  makes no call and changes nothing, so the next call finds the same cache. A fetch that
  fails (a response that is not ok, or an exception) leaves no key. With no key stored,
  the next call fetches. A key that is returned without a fetch is the stored one, and it
  is at most the grace period old.
\<close>

lemma get_public_key_fetched:
  assumes "\<not> truthy (public_key options)"
    and "\<not> truthy (fetched_public_key s) \<or>
         now_get_public_key e - last_public_key_update s > grace_period options"
    and "fetch_response e = Fetch_ok text" and "text \<noteq> []"
  shows "get_public_key options e s =
     (Some text, \<lparr> fetched_public_key = Some text, last_public_key_update = now_get_public_key e \<rparr>,
      [Call_fetch (public_key_endpoint options)])"
  using assms by (auto simp add: get_public_key_def Let_def truthy_def)

lemma get_public_key_cached:
  assumes "\<not> truthy (public_key options)" and "truthy (fetched_public_key s)"
    and "now_get_public_key e - last_public_key_update s \<le> grace_period options"
  shows "get_public_key options e s = (fetched_public_key s, s, [])"
  using assms by (simp add: get_public_key_def Let_def)


lemma get_public_key_fetches_when_empty:
  assumes "\<not> truthy (public_key options)" and "fetched_public_key s = None"
  shows "\<exists>key s' evs. get_public_key options e s =
     (key, s', Call_fetch (public_key_endpoint options) # evs)"
  using assms by (simp add: get_public_key_def Let_def truthy_def split: fetch_outcome.split)

lemma get_public_key_no_stale_key:
  assumes "\<not> truthy (public_key options)" and "get_public_key options e s = (Some key, s', [])"
  shows "fetched_public_key s = Some key \<and>
         now_get_public_key e - last_public_key_update s \<le> grace_period options"
  using assms
  by (auto simp add: get_public_key_def Let_def truthy_def split: if_splits fetch_outcome.splits option.splits)

text \<open>
  So in a run of successive calls whose clocks are all within the grace period of the
  stored time, every call returns the stored key and none makes a call.
\<close>

lemma get_public_key_calls_cached:
  assumes "\<not> truthy (public_key options)" and "truthy (fetched_public_key s)"
    and "\<forall>e \<in> set es. now_get_public_key e - last_public_key_update s \<le> grace_period options"
  shows "get_public_key_calls options es s = (map (\<lambda>e. (fetched_public_key s, [])) es, s)"
  using assms by (induction es) (simp_all add: get_public_key_cached)

subsection \<open>The hash header\<close>

text \<open>
  In index.js, the second file of part\_000 and part\_001, a request that gets past the
  bypass and the key, and whose hash header is absent or not a string, is answered with
  false, status 400 and the error \<open>missing or malformed request hash\<close>.
\<close>

lemma missing_hash_header_rejected:
  assumes "(M, bypass) \<in>
      {(middleware, truthy (SKIP_GATEWAY_VERIFICATION e)),
       (middleware_part_001, skip_verification options), (middleware_part_000b, False)}"
    and "\<not> bypass"
    and "get_public_key options e s = (public_key', s', evs)" and "truthy public_key'"
    and "typeof_string (get (request_headers request) (hash (headers options))) = None"
  shows "M options e s request response =
     return_false (respond bad_request ''content-type'' ''missing or malformed request hash''
       ''The request does not have a proper request hash header.'' response) s' (Call_get_public_key # evs)"
  using assms
  by (auto simp add: middleware_def middleware_part_001_def middleware_part_000b_def)

subsection \<open>The freshness check and the success path in the other files\<close>

text \<open>
  In every file, a request that reaches the freshness check with a declared time more
  than the grace period behind the clock is answered with false, status 400 and the error
  \<open>expired request\<close>.
\<close>

lemma expired_request_rejected:
  assumes "(M, bypass) \<in>
      {(middleware, truthy (SKIP_GATEWAY_VERIFICATION e)),
       (middleware_part_001, skip_verification options), (middleware_part_000b, False)}"
    and "\<not> bypass"
    and "get_public_key options e s = (public_key', s', evs)" and "truthy public_key'"
    and "typeof_string (get (request_headers request) (hash (headers options))) = Some incoming_request_hash"
    and "typeof_string (get (request_headers request) (signature (headers options))) =
           Some incoming_request_hash_signature"
    and "parseInt (ToString (get (request_headers request) (time (headers options)))) = Some T"
    and "now_middleware e - T > grace_period options"
  shows "verdict (M options e s request response) = Inr False \<and>
         response_after (M options e s request response) =
           respond bad_request ''content-type'' ''expired request''
             ''The request from the API gateway has expired.'' response"
  using assms
  by (auto simp add: middleware_def middleware_part_001_def middleware_part_000b_def
      Let_def minus_NaN_def greater_NaN_def return_false_def)

lemma expired_request_rejected_part_000a:
  assumes "get_public_key_part_000a options e s = (Inr public_key', s', evs)" and "truthy public_key'"
    and "parseInt (ToString (get (request_headers request) (time (headers options)))) = Some T"
    and "now_middleware e - T > grace_period options"
  shows "verdict (middleware_part_000a options e s request response) = Inr False \<and>
         response_after (middleware_part_000a options e s request response) =
           respond bad_request ''Content-Type'' ''expired request''
             ''The request from the API gateway has expired.'' response"
  using assms
  by (simp add: middleware_part_000a_def Let_def minus_NaN_def greater_NaN_def return_false_def)

text \<open>
  In part\_001 and in the two files of part\_000, as in index.js, a request with the right
  digest, a signature that verifies and a time within the grace period gets true and the
  response is left as it was. In part\_001 the bypass must be off for that, since the
  bypass marks the response.
\<close>

lemma valid_request_part_001:
  assumes "\<not> skip_verification options"
    and "get_public_key options e s = (public_key', s', evs)" and "truthy public_key'"
    and "get (request_headers request) (hash (headers options)) =
           Some (Str (createHash_SHA256_base64 e
             (request_as_string request (headers_to_verify_reduce options request))))"
    and "get (request_headers request) (signature (headers options)) = Some (Str incoming_request_hash_signature)"
    and "createVerify_RSA_SHA256 e (key_string public_key')
           (createHash_SHA256_base64 e (request_as_string request (headers_to_verify_reduce options request)))
           incoming_request_hash_signature = Inr True"
    and "parseInt (ToString (get (request_headers request) (time (headers options)))) = Some T"
    and "now_middleware e - T \<le> grace_period options"
  shows "verdict (middleware_part_001 options e s request response) = Inr True \<and>
         response_after (middleware_part_001 options e s request response) = response"
  using assms
  by (simp add: middleware_part_001_def Let_def typeof_string_def minus_NaN_def greater_NaN_def
      return_true_def)

lemma valid_request_part_000b:
  assumes "get_public_key options e s = (public_key', s', evs)" and "truthy public_key'"
    and "get (request_headers request) (hash (headers options)) =
           Some (Str (createHash_SHA256_base64 e
             (request_as_string request (headers_to_verify_extend options request))))"
    and "get (request_headers request) (signature (headers options)) = Some (Str incoming_request_hash_signature)"
    and "createVerify_RSA_SHA256 e (key_string public_key')
           (createHash_SHA256_base64 e (request_as_string request (headers_to_verify_extend options request)))
           incoming_request_hash_signature = Inr True"
    and "parseInt (ToString (get (request_headers request) (time (headers options)))) = Some T"
    and "now_middleware e - T \<le> grace_period options"
  shows "verdict (middleware_part_000b options e s request response) = Inr True \<and>
         response_after (middleware_part_000b options e s request response) = response"
  using assms
  by (simp add: middleware_part_000b_def Let_def typeof_string_def minus_NaN_def greater_NaN_def
      return_true_def)

lemma valid_request_part_000a:
  assumes "get_public_key_part_000a options e s = (Inr public_key', s', evs)" and "truthy public_key'"
    and "get (request_headers request) (hash (headers options)) =
           Some (Str (createHash_SHA256_base64 e
             (request_as_string request (headers_to_verify_extend options request))))"
    and "get (request_headers request) (signature (headers options)) = Some (Str incoming_request_hash_signature)"
    and "createVerify_RSA_SHA256 e (key_string public_key')
           (createHash_SHA256_base64 e (request_as_string request (headers_to_verify_extend options request)))
           incoming_request_hash_signature = Inr True"
    and "parseInt (ToString (get (request_headers request) (time (headers options)))) = Some T"
    and "now_middleware e - T \<le> grace_period options"
  shows "verdict (middleware_part_000a options e s request response) = Inr True \<and>
         response_after (middleware_part_000a options e s request response) = response"
  using assms
  by (simp add: middleware_part_000a_def verify_part_000a_def Let_def typeof_string_def minus_NaN_def
      greater_NaN_def return_true_def)

section \<open>The claims\<close>




text \<open>
  C2. A request without a hash header, when a key is available, is to be answered with
  false, status 400 and the error \<open>missing or malformed request hash\<close>. index.js, the
  second file of part\_000 and part\_001 do that (\<open>missing_hash_header_rejected\<close>). The
  first file of part\_000 has no check of the hash header: a request without one (with a
  static key, and a time within the grace period) runs to the comparison of the computed
  digest with \<open>undefined\<close> and is answered with false, status 400 and the error
  \<open>invalid request hash\<close>, which is another body.
\<close>

theorem part_000a_missing_hash_header_is_invalid_hash:
  "verdict (middleware_part_000a example_options example_env initial_state
      (example_request\<lparr> request_headers :=
         [(''x-micro-api-gateway-signature-time'', Str ''999000''),
          (''x-micro-api-gateway-signature'', Str ''signed:sha256:GET:::/orders:::{}'')] \<rparr>)
      example_response) = Inr False \<and>
   response_after (middleware_part_000a example_options example_env initial_state
      (example_request\<lparr> request_headers :=
         [(''x-micro-api-gateway-signature-time'', Str ''999000''),
          (''x-micro-api-gateway-signature'', Str ''signed:sha256:GET:::/orders:::{}'')] \<rparr>)
      example_response) =
     \<lparr> statusCode = 400, response_headers = [(''Content-Type'', ''application/json'')],
       body = Some (JSON_stringify_error ''invalid request hash''
                      ''The request from the API gateway has an invalid request hash.'') \<rparr> \<and>
   JSON_stringify_error ''invalid request hash''
       ''The request from the API gateway has an invalid request hash.'' \<noteq>
     JSON_stringify_error ''missing or malformed request hash''
       ''The request does not have a proper request hash header.''"
  by (simp add: middleware_part_000a_def get_public_key_part_000a_def example_defs js_defs parseInt_defs
      outcome_defs error_bodies_distinct Let_def)

theorem part_000a_missing_hash_header_is_invalid_hash_witness:
  "statusCode (response_after (middleware_part_000a example_options example_env initial_state
      (example_request\<lparr> request_headers :=
         [(''x-micro-api-gateway-signature-time'', Str ''999000''),
          (''x-micro-api-gateway-signature'', Str ''signed:sha256:GET:::/orders:::{}'')] \<rparr>)
      example_response)) = 400"
  using part_000a_missing_hash_header_is_invalid_hash by simp




text \<open>
  C4. With a key endpoint, a fetched key is to be reused without a fetch while it is
  within the grace period, and any failed fetch (a response that is not ok, a network or
  transport exception) is to clear the cache, so that the next call fetches again.
  \<open>get_public_key\<close> of index.js, of the second file of part\_000 and of part\_001 does
  that (\<open>get_public_key_fetched\<close>, \<open>get_public_key_calls_cached\<close>,
  \<open>get_public_key_fetch_failed\<close>, \<open>get_public_key_fetches_when_empty\<close>,
  \<open>get_public_key_no_stale_key\<close>). The first file of part\_000 does not clear the cache
  when the fetch throws: its \<open>get_public_key\<close> has no \<open>try\<close>, so the exception leaves
  the function and the stored key stays. Here the stored key is older than the grace period
  and the fetch fails with a connection error: the first file of part\_000 throws and
  keeps the key, while \<open>get_public_key\<close> of index.js, on the same input, returns no key
  and clears the cache.
\<close>

theorem part_000a_fetch_exception_keeps_cached_key:
  "get_public_key_part_000a example_endpoint_options
     (example_env\<lparr> fetch_response := Fetch_throws ''connect ECONNREFUSED'' \<rparr>)
     \<lparr> fetched_public_key = Some ''-----BEGIN PUBLIC KEY-----'', last_public_key_update = 0 \<rparr> =
     (Inl ''connect ECONNREFUSED'',
      \<lparr> fetched_public_key = Some ''-----BEGIN PUBLIC KEY-----'', last_public_key_update = 0 \<rparr>,
      [Call_fetch (Some ''https://your.gateway.com/public.pem'')]) \<and>
   get_public_key example_endpoint_options
     (example_env\<lparr> fetch_response := Fetch_throws ''connect ECONNREFUSED'' \<rparr>)
     \<lparr> fetched_public_key = Some ''-----BEGIN PUBLIC KEY-----'', last_public_key_update = 0 \<rparr> =
     (None, \<lparr> fetched_public_key = None, last_public_key_update = 0 \<rparr>,
      [Call_fetch (Some ''https://your.gateway.com/public.pem''), Console_warn ''connect ECONNREFUSED''])"
  by (simp add: get_public_key_part_000a_def get_public_key_def example_defs truthy_def)

theorem part_000a_fetch_exception_keeps_cached_key_witness:
  "fetched_public_key (fst (snd (get_public_key_part_000a example_endpoint_options
     (example_env\<lparr> fetch_response := Fetch_throws ''connect ECONNREFUSED'' \<rparr>)
     \<lparr> fetched_public_key = Some ''-----BEGIN PUBLIC KEY-----'', last_public_key_update = 0 \<rparr>))) =
   Some ''-----BEGIN PUBLIC KEY-----''"
  using part_000a_fetch_exception_keeps_cached_key by simp

text \<open>
  C5. With the bypass enabled the call returns true at once: it makes no call at all (no
  \<open>get_public_key\<close> and no fetch, no \<open>json_stable_stringify\<close>, no \<open>createHash\<close>, no
  \<open>createVerify\<close>), leaves the closure's variables alone and writes no failure response.
  In index.js the bypass is the environment variable and the response is untouched; in
  part\_001 it is the option \<open>skip_verification\<close> and the response gets the header
  \<open>x-micro-api-gateway-verification-skipped\<close> and nothing else. The files of part\_000
  have no bypass.
\<close>

theorem bypass_returns_true_without_calls:
  "(truthy (SKIP_GATEWAY_VERIFICATION e) \<longrightarrow>
      middleware options e s request response =
        \<lparr> verdict = Inr True, response_after = response, state_after = s, trace = [] \<rparr>) \<and>
   (skip_verification options \<longrightarrow>
      middleware_part_001 options e s request response =
        \<lparr> verdict = Inr True,
          response_after = response\<lparr> response_headers :=
            AList.update ''x-micro-api-gateway-verification-skipped'' ''true'' (response_headers response) \<rparr>,
          state_after = s, trace = [] \<rparr>)"
  by (simp add: middleware_def middleware_part_001_def return_true_def setHeader_def)

theorem bypass_returns_true_without_calls_witness:
  "truthy (SKIP_GATEWAY_VERIFICATION (example_env\<lparr> SKIP_GATEWAY_VERIFICATION := Some ''1'' \<rparr>)) \<and>
   skip_verification (example_options\<lparr> skip_verification := True \<rparr>) \<and>
   middleware (example_options\<lparr> skip_verification := True \<rparr>)
       (example_env\<lparr> SKIP_GATEWAY_VERIFICATION := Some ''1'' \<rparr>)
       initial_state (example_request\<lparr> request_headers := [] \<rparr>) example_response =
     \<lparr> verdict = Inr True, response_after = example_response, state_after = initial_state, trace = [] \<rparr> \<and>
   middleware_part_001 (example_options\<lparr> skip_verification := True \<rparr>)
       (example_env\<lparr> SKIP_GATEWAY_VERIFICATION := Some ''1'' \<rparr>)
       initial_state (example_request\<lparr> request_headers := [] \<rparr>) example_response =
     \<lparr> verdict = Inr True,
       response_after = \<lparr> statusCode = 200,
         response_headers = [(''x-micro-api-gateway-verification-skipped'', ''true'')], body = None \<rparr>,
       state_after = initial_state, trace = [] \<rparr>"
  using bypass_returns_true_without_calls
    [of "example_env\<lparr> SKIP_GATEWAY_VERIFICATION := Some ''1'' \<rparr>"
        "example_options\<lparr> skip_verification := True \<rparr>" initial_state
        "example_request\<lparr> request_headers := [] \<rparr>" example_response]
  by (simp add: truthy_def example_env_def example_options_def example_response_def)

text \<open>
  C6. Whenever one of the four verifiers returns false, the response it leaves is the one
  written for one of the six failure objects, with status 500 when the error kind is
  \<open>missing public key\<close> and status 400 for each of the other five kinds. Read from the
  response: the status is 500 exactly when the body is the \<open>missing public key\<close> object,
  and 400 otherwise.
\<close>

theorem failure_status_codes:
  assumes "(M, content_type) \<in>
      {(middleware, ''content-type''), (middleware_part_001, ''content-type''),
       (middleware_part_000b, ''content-type''), (middleware_part_000a, ''Content-Type'')}"
    and "verdict (M options e s request response) = Inr False"
  shows "(\<exists>(error, message) \<in> set failures.
            response_after (M options e s request response) =
              respond (if error = ''missing public key'' then 500 else 400) content_type error message
                response \<and>
            statusCode (response_after (M options e s request response)) =
              (if error = ''missing public key'' then 500 else 400)) \<and>
         statusCode (response_after (M options e s request response)) =
           (if body (response_after (M options e s request response)) =
                 Some (JSON_stringify_error ''missing public key''
                         ''Could not obtain public key from provided endpoint.'')
            then 500 else 400) \<and>
         internal_server_error = 500 \<and> bad_request = 400"
proof -
  define P where "P out \<longleftrightarrow>
    (verdict out = Inr False \<longrightarrow>
     (\<exists>(error, message) \<in> set failures.
        response_after out =
          respond (if error = ''missing public key'' then 500 else 400) content_type error message response))"
    for out :: outcome
  have leaf: "P (return_false (respond status content_type error message response) s' tr)"
    if "(error, message) \<in> set failures"
      and "status = (if error = ''missing public key'' then internal_server_error else bad_request)"
    for error message status s' tr
  proof -
    from that(2) have "status = (if error = ''missing public key'' then 500 else 400)"
      by (simp add: internal_server_error_def bad_request_def)
    with that(1) show ?thesis
      unfolding P_def return_false_def
      by (intro impI bexI [where x = "(error, message)"]) simp_all
  qed
  from assms(1) consider
      "M = middleware" "content_type = ''content-type''"
    | "M = middleware_part_001" "content_type = ''content-type''"
    | "M = middleware_part_000b" "content_type = ''content-type''"
    | "M = middleware_part_000a" "content_type = ''Content-Type''"
    by blast
  then have "P (M options e s request response)"
  proof cases
    case 1
    then show ?thesis
      using leaf by (intro middleware_outcomes [where P = P, folded 1(1)])
        (simp_all add: P_def return_true_def throw_def)
  next
    case 2
    then show ?thesis
      using leaf by (intro middleware_part_001_outcomes [where P = P, folded 2(1)])
        (simp_all add: P_def return_true_def throw_def)
  next
    case 3
    then show ?thesis
      using leaf by (intro middleware_part_000b_outcomes [where P = P, folded 3(1)])
        (simp_all add: P_def return_true_def throw_def)
  next
    case 4
    then show ?thesis
      using leaf by (intro middleware_part_000a_outcomes [where P = P, folded 4(1)])
        (simp_all add: P_def return_true_def throw_def)
  qed
  with assms(2) obtain error message where written: "(error, message) \<in> set failures"
    "response_after (M options e s request response) =
       respond (if error = ''missing public key'' then 500 else 400) content_type error message response"
    unfolding P_def by blast
  have status: "statusCode (response_after (M options e s request response)) =
      (if error = ''missing public key'' then 500 else 400)"
    unfolding written(2) by (simp add: respond_def setHeader_def)
  have first: "\<exists>(error, message) \<in> set failures.
      response_after (M options e s request response) =
        respond (if error = ''missing public key'' then 500 else 400) content_type error message response \<and>
      statusCode (response_after (M options e s request response)) =
        (if error = ''missing public key'' then 500 else 400)"
    using written status by (intro bexI [where x = "(error, message)"]) simp_all
  have second: "statusCode (response_after (M options e s request response)) =
      (if body (response_after (M options e s request response)) =
            Some (JSON_stringify_error ''missing public key''
                    ''Could not obtain public key from provided endpoint.'')
       then 500 else 400)"
    using failure_status_iff_body [OF written(1), of content_type response]
    by (simp only: written(2))
  from first second show ?thesis
    by (simp add: internal_server_error_def bad_request_def)
qed

theorem failure_status_codes_witness:
  "verdict (middleware example_endpoint_options (example_env\<lparr> fetch_response := Fetch_not_ok 503 \<rparr>)
      initial_state example_request example_response) = Inr False \<and>
   statusCode (response_after (middleware example_endpoint_options
      (example_env\<lparr> fetch_response := Fetch_not_ok 503 \<rparr>) initial_state example_request example_response)) =
     (if body (response_after (middleware example_endpoint_options
           (example_env\<lparr> fetch_response := Fetch_not_ok 503 \<rparr>) initial_state example_request
           example_response)) =
         Some (JSON_stringify_error ''missing public key''
                 ''Could not obtain public key from provided endpoint.'')
      then 500 else 400) \<and>
   statusCode (response_after (middleware example_endpoint_options
      (example_env\<lparr> fetch_response := Fetch_not_ok 503 \<rparr>) initial_state example_request example_response)) =
     500"
  using failure_status_codes
    [where M = middleware and content_type = "''content-type''" and options = example_endpoint_options
       and e = "example_env\<lparr> fetch_response := Fetch_not_ok 503 \<rparr>" and s = initial_state
       and request = example_request and response = example_response]
  by (simp add: middleware_def get_public_key_def example_defs js_defs outcome_defs)



text \<open>
  C8. Canonicalization does not depend on the insertion order of the request's headers:
  two requests with the same method and URL whose header objects hold the same key/value
  pairs (in any order) have the same canonical string, under the whitelist of index.js and
  part\_001 and under the blacklist of part\_000, and hence the same digest.
\<close>

theorem canonical_string_order_independent:
  assumes "request_method r1 = request_method r2" and "url r1 = url r2"
    and "distinct (map fst (request_headers r1))" and "distinct (map fst (request_headers r2))"
    and "set (request_headers r1) = set (request_headers r2)"
  shows "request_as_string r1 (headers_to_verify_reduce options r1) =
           request_as_string r2 (headers_to_verify_reduce options r2) \<and>
         request_as_string r1 (headers_to_verify_extend options r1) =
           request_as_string r2 (headers_to_verify_extend options r2) \<and>
         createHash_SHA256_base64 e (request_as_string r1 (headers_to_verify_reduce options r1)) =
           createHash_SHA256_base64 e (request_as_string r2 (headers_to_verify_reduce options r2)) \<and>
         createHash_SHA256_base64 e (request_as_string r1 (headers_to_verify_extend options r1)) =
           createHash_SHA256_base64 e (request_as_string r2 (headers_to_verify_extend options r2))"
proof -
  from assms(3-5) have "map_of (request_headers r1) = map_of (request_headers r2)"
    by (simp add: map_of_inject_set)
  then have reduce: "headers_to_verify_reduce options r1 = headers_to_verify_reduce options r2"
    by (rule headers_to_verify_reduce_cong)
  have "sort_key fst (headers_to_verify_extend options r1) = sort_key fst (headers_to_verify_extend options r2)"
    using assms(3-5)
    by (intro sort_key_fst_unique headers_to_verify_extend_distinct headers_to_verify_extend_set)
  then have extend: "json_stable_stringify (headers_to_verify_extend options r1) =
      json_stable_stringify (headers_to_verify_extend options r2)"
    by (simp add: json_stable_stringify_def)
  from reduce extend assms(1,2) show ?thesis
    by (simp add: request_as_string_def)
qed

theorem canonical_string_order_independent_witness:
  "request_as_string
     \<lparr> request_method = ''GET'', url = ''/orders'',
       request_headers = [(''x-b'', Str ''2''), (''accept'', Str ''*/*''), (''x-a'', Arr [''1'', ''3''])] \<rparr>
     (headers_to_verify_extend example_options
       \<lparr> request_method = ''GET'', url = ''/orders'',
         request_headers = [(''x-b'', Str ''2''), (''accept'', Str ''*/*''), (''x-a'', Arr [''1'', ''3''])] \<rparr>) =
   request_as_string
     \<lparr> request_method = ''GET'', url = ''/orders'',
       request_headers = [(''x-a'', Arr [''1'', ''3'']), (''x-b'', Str ''2''), (''accept'', Str ''*/*'')] \<rparr>
     (headers_to_verify_extend example_options
       \<lparr> request_method = ''GET'', url = ''/orders'',
         request_headers = [(''x-a'', Arr [''1'', ''3'']), (''x-b'', Str ''2''), (''accept'', Str ''*/*'')] \<rparr>)"
  using canonical_string_order_independent
    [of "\<lparr> request_method = ''GET'', url = ''/orders'',
           request_headers = [(''x-b'', Str ''2''), (''accept'', Str ''*/*''), (''x-a'', Arr [''1'', ''3''])] \<rparr>"
        "\<lparr> request_method = ''GET'', url = ''/orders'',
           request_headers = [(''x-a'', Arr [''1'', ''3'']), (''x-b'', Str ''2''), (''accept'', Str ''*/*'')] \<rparr>"
        example_options example_env]
  by (simp add: insert_commute)

text \<open>
  C9. When the time header is absent or does not parse, \<open>parseInt\<close> gives \<open>NaN\<close>, the
  delta is \<open>NaN\<close> and \<open>time_delta > grace_period\<close> is false. So index.js and part\_001
  never answer such a request with \<open>expired request\<close>, and they return true for it when
  a key is there, the hash header is the digest of the canonical string and the signature
  verifies.
\<close>

theorem unparsable_time_is_never_expired:
  assumes "parseInt (ToString (get (request_headers request) (time (headers options)))) = None"
  shows "minus_NaN (now_middleware e)
           (parseInt (ToString (get (request_headers request) (time (headers options))))) = None \<and>
         \<not> greater_NaN (minus_NaN (now_middleware e)
           (parseInt (ToString (get (request_headers request) (time (headers options))))))
           (grace_period options) \<and>
         (\<forall>s' tr. middleware options e s request response \<noteq>
            return_false (respond bad_request ''content-type'' ''expired request''
              ''The request from the API gateway has expired.'' response) s' tr) \<and>
         (\<forall>s' tr. middleware_part_001 options e s request response \<noteq>
            return_false (respond bad_request ''content-type'' ''expired request''
              ''The request from the API gateway has expired.'' response) s' tr) \<and>
         (get_public_key options e s = (public_key', s1, evs) \<and> truthy public_key' \<and>
          get (request_headers request) (hash (headers options)) =
            Some (Str (createHash_SHA256_base64 e
              (request_as_string request (headers_to_verify_reduce options request)))) \<and>
          get (request_headers request) (signature (headers options)) =
            Some (Str incoming_request_hash_signature) \<and>
          createVerify_RSA_SHA256 e (key_string public_key')
            (createHash_SHA256_base64 e (request_as_string request (headers_to_verify_reduce options request)))
            incoming_request_hash_signature = Inr True \<longrightarrow>
          verdict (middleware options e s request response) = Inr True \<and>
          verdict (middleware_part_001 options e s request response) = Inr True)"
proof (intro conjI allI impI)
  show "minus_NaN (now_middleware e)
      (parseInt (ToString (get (request_headers request) (time (headers options))))) = None"
    using assms by (simp add: minus_NaN_def)
  then show "\<not> greater_NaN (minus_NaN (now_middleware e)
      (parseInt (ToString (get (request_headers request) (time (headers options))))))
      (grace_period options)"
    by (simp add: greater_NaN_def)
next
  fix s' tr
  show "middleware options e s request response \<noteq>
      return_false (respond bad_request ''content-type'' ''expired request''
        ''The request from the API gateway has expired.'' response) s' tr"
    using assms
    by (simp add: middleware_def Let_def minus_NaN_def greater_NaN_def return_false_def return_true_def
        throw_def respond_eq_iff error_bodies_distinct
        split: prod.splits option.splits sum.splits)
  show "middleware_part_001 options e s request response \<noteq>
      return_false (respond bad_request ''content-type'' ''expired request''
        ''The request from the API gateway has expired.'' response) s' tr"
    using assms
    by (simp add: middleware_part_001_def Let_def minus_NaN_def greater_NaN_def return_false_def
        return_true_def throw_def respond_eq_iff error_bodies_distinct
        split: prod.splits option.splits sum.splits)
next
  assume valid: "get_public_key options e s = (public_key', s1, evs) \<and> truthy public_key' \<and>
      get (request_headers request) (hash (headers options)) =
        Some (Str (createHash_SHA256_base64 e
          (request_as_string request (headers_to_verify_reduce options request)))) \<and>
      get (request_headers request) (signature (headers options)) =
        Some (Str incoming_request_hash_signature) \<and>
      createVerify_RSA_SHA256 e (key_string public_key')
        (createHash_SHA256_base64 e (request_as_string request (headers_to_verify_reduce options request)))
        incoming_request_hash_signature = Inr True"
  show "verdict (middleware options e s request response) = Inr True"
    using assms valid
    by (simp add: middleware_def Let_def typeof_string_def minus_NaN_def greater_NaN_def return_true_def)
  show "verdict (middleware_part_001 options e s request response) = Inr True"
    using assms valid
    by (simp add: middleware_part_001_def Let_def typeof_string_def minus_NaN_def greater_NaN_def
        return_true_def)
qed

theorem unparsable_time_is_never_expired_witness:
  "parseInt (ToString (get (request_headers
      (example_request\<lparr> request_headers := tl (request_headers example_request) \<rparr>))
      (time (headers example_options)))) = None \<and>
   verdict (middleware example_options (example_env\<lparr> now_middleware := 99999999999 \<rparr>) initial_state
      (example_request\<lparr> request_headers := tl (request_headers example_request) \<rparr>) example_response) =
     Inr True"
  using unparsable_time_is_never_expired
    [where request = "example_request\<lparr> request_headers := tl (request_headers example_request) \<rparr>"
       and options = example_options and e = "example_env\<lparr> now_middleware := 99999999999 \<rparr>"
       and s = initial_state and response = example_response
       and public_key' = "Some ''-----BEGIN PUBLIC KEY-----''" and ?s1.0 = initial_state and evs = "[]"
       and incoming_request_hash_signature = "''signed:sha256:GET:::/orders:::{}''"]
  by (simp add: example_defs js_defs parseInt_defs get_public_key_def canonical_defs)

text \<open>
  C10. In the whitelist files (index.js, part\_001) the default \<open>headers_to_verify\<close> is
  the empty list, and with an empty list the canonical string of every request is its
  method, \<open>:::\<close>, its URL, \<open>:::\<close> and \<open>{}\<close>, whatever headers it carries. So the digest
  covers the method and the URL only: two requests with the same method and URL that agree
  on the three protocol headers (hash, signature, time) get the same outcome, whatever
  their other headers are.
\<close>

theorem empty_whitelist_covers_method_and_url_only:
  "headers_to_verify default_options = [] \<and>
   request_as_string request (headers_to_verify_reduce (options\<lparr> headers_to_verify := [] \<rparr>) request) =
     request_method request @ '':::'' @ url request @ '':::'' @ ''{}'' \<and>
   (request_method r1 = request_method r2 \<and> url r1 = url r2 \<and>
    get (request_headers r1) (hash (headers options)) = get (request_headers r2) (hash (headers options)) \<and>
    get (request_headers r1) (signature (headers options)) =
      get (request_headers r2) (signature (headers options)) \<and>
    get (request_headers r1) (time (headers options)) = get (request_headers r2) (time (headers options)) \<longrightarrow>
    middleware (options\<lparr> headers_to_verify := [] \<rparr>) e s r1 response =
      middleware (options\<lparr> headers_to_verify := [] \<rparr>) e s r2 response \<and>
    middleware_part_001 (options\<lparr> headers_to_verify := [] \<rparr>) e s r1 response =
      middleware_part_001 (options\<lparr> headers_to_verify := [] \<rparr>) e s r2 response)"
proof (intro conjI impI)
  show "headers_to_verify default_options = []"
    by (simp add: default_options_def)
  show "request_as_string request (headers_to_verify_reduce (options\<lparr> headers_to_verify := [] \<rparr>) request) =
     request_method request @ '':::'' @ url request @ '':::'' @ ''{}''"
    by (simp add: request_as_string_def headers_to_verify_reduce_def json_stable_stringify_def)
next
  assume same: "request_method r1 = request_method r2 \<and> url r1 = url r2 \<and>
    get (request_headers r1) (hash (headers options)) = get (request_headers r2) (hash (headers options)) \<and>
    get (request_headers r1) (signature (headers options)) =
      get (request_headers r2) (signature (headers options)) \<and>
    get (request_headers r1) (time (headers options)) = get (request_headers r2) (time (headers options))"
  show "middleware (options\<lparr> headers_to_verify := [] \<rparr>) e s r1 response =
      middleware (options\<lparr> headers_to_verify := [] \<rparr>) e s r2 response"
    using same
    by (simp add: middleware_def Let_def request_as_string_def headers_to_verify_reduce_def
        cong: option.case_cong prod.case_cong sum.case_cong if_cong)
  show "middleware_part_001 (options\<lparr> headers_to_verify := [] \<rparr>) e s r1 response =
      middleware_part_001 (options\<lparr> headers_to_verify := [] \<rparr>) e s r2 response"
    using same
    by (simp add: middleware_part_001_def Let_def request_as_string_def headers_to_verify_reduce_def
        cong: option.case_cong prod.case_cong sum.case_cong if_cong)
qed

theorem empty_whitelist_covers_method_and_url_only_witness:
  "middleware (example_options\<lparr> headers_to_verify := [] \<rparr>) example_env initial_state
     (example_request\<lparr> request_headers := (''x-user'', Str ''alice'') # request_headers example_request \<rparr>)
     example_response =
   middleware (example_options\<lparr> headers_to_verify := [] \<rparr>) example_env initial_state
     (example_request\<lparr> request_headers := (''x-user'', Str ''mallory'') # request_headers example_request \<rparr>)
     example_response \<and>
   request_as_string
     (example_request\<lparr> request_headers := (''x-user'', Str ''mallory'') # request_headers example_request \<rparr>)
     (headers_to_verify_reduce (example_options\<lparr> headers_to_verify := [] \<rparr>)
       (example_request\<lparr> request_headers := (''x-user'', Str ''mallory'') # request_headers example_request \<rparr>)) =
   ''GET:::/orders:::{}''"
  using empty_whitelist_covers_method_and_url_only
    [of "example_request\<lparr> request_headers := (''x-user'', Str ''mallory'') # request_headers example_request \<rparr>"
        example_options
        "example_request\<lparr> request_headers := (''x-user'', Str ''alice'') # request_headers example_request \<rparr>"
        "example_request\<lparr> request_headers := (''x-user'', Str ''mallory'') # request_headers example_request \<rparr>"
        example_env initial_state example_response]
  by (simp add: example_request_def example_options_def default_options_def get_def)

end
